theory Spec2Isabelle
  imports Main "HOL-Library.Sublist"
begin

section \<open>The Vulkan specification transcoder (gen/vk\_spec\_reference\_parser.py)\<close>

text \<open>
  The script walks a \<^verbatim>\<open>VulkanObject\<close> and prints one record per entity. Every
  \<^verbatim>\<open>print\<close> call writes one line, so the standard output is modelled as the list of
  lines printed, in order; \<open>stdout_text\<close> below turns the list into the text written.
  Attribute values are taken to contain no line break (they are names and tokens of the
  Vulkan registry), so a line of the model is a line of the text.
\<close>

subsection \<open>Python values\<close>

text \<open>
  The attributes the script prints or tests are dynamically typed. The values they range
  over in the model: \<^verbatim>\<open>None\<close>, booleans, integers and strings.
\<close>

datatype pyval = PNone | PBool bool | PInt int | PStr string

text \<open>The truth value of \<^verbatim>\<open>if x\<close>.\<close>

fun truthy :: "pyval \<Rightarrow> bool" where
  "truthy PNone = False"
| "truthy (PBool b) = b"
| "truthy (PInt i) = (i \<noteq> 0)"
| "truthy (PStr s) = (s \<noteq> [])"

definition digit_char :: "nat \<Rightarrow> char" where
  "digit_char d =
     (if d = 0 then CHR ''0'' else if d = 1 then CHR ''1'' else if d = 2 then CHR ''2''
      else if d = 3 then CHR ''3'' else if d = 4 then CHR ''4'' else if d = 5 then CHR ''5''
      else if d = 6 then CHR ''6'' else if d = 7 then CHR ''7'' else if d = 8 then CHR ''8''
      else CHR ''9'')"

fun show_nat :: "nat \<Rightarrow> string" where
  "show_nat n = (if n < 10 then [digit_char n] else show_nat (n div 10) @ [digit_char (n mod 10)])"

declare show_nat.simps [simp del]

definition show_int :: "int \<Rightarrow> string" where
  "show_int i = (if i < 0 then CHR ''-'' # show_nat (nat (- i)) else show_nat (nat i))"

text \<open>\<^verbatim>\<open>str(x)\<close>, which \<^verbatim>\<open>print\<close> and an f-string apply to each argument.\<close>

fun py_str :: "pyval \<Rightarrow> string" where
  "py_str PNone = ''None''"
| "py_str (PBool b) = (if b then ''True'' else ''False'')"
| "py_str (PInt i) = show_int i"
| "py_str (PStr s) = s"

text \<open>\<^verbatim>\<open>sep.join(xs)\<close> on a list of strings.\<close>

fun str_join :: "string \<Rightarrow> string list \<Rightarrow> string" where
  "str_join sep [] = []"
| "str_join sep [x] = x"
| "str_join sep (x # y # ys) = x @ sep @ str_join sep (y # ys)"

text \<open>The printed form of \<^verbatim>\<open>x if x else "null"\<close>.\<close>

definition or_null :: "pyval \<Rightarrow> string" where
  "or_null x = (if truthy x then py_str x else ''null'')"

text \<open>\<^verbatim>\<open>"true" if x else "false"\<close>.\<close>

definition true_false :: "pyval \<Rightarrow> string" where
  "true_false x = (if truthy x then ''true'' else ''false'')"

text \<open>
  The bracketed list of \<^verbatim>\<open>print("key = [", ",".join(xs), "]", sep = "")\<close>: the
  opening bracket that ends the first argument, the joined items, the closing bracket.
\<close>

definition bracket_join :: "string list \<Rightarrow> string" where
  "bracket_join xs = ''['' @ str_join '','' xs @ '']''"

text \<open>The text written to standard output: every line followed by a newline.\<close>

definition stdout_text :: "string list \<Rightarrow> string" where
  "stdout_text ls = concat (map (\<lambda>l. l @ [CHR 0x0A]) ls)"

subsection \<open>The entities of the model\<close>

record FeatureRequirement =
  fr_struct :: pyval
  fr_field :: pyval
  fr_depends :: pyval

record Version =
  ver_name :: pyval
  ver_nameApi :: pyval
  ver_featureRequirement :: "FeatureRequirement list"

text \<open>
  Where the script reads only the \<^verbatim>\<open>name\<close> of a referenced object, the field holds
  that name: the owned objects of an extension are the lists of their names, and an
  optional reference (\<^verbatim>\<open>item.parent\<close>, \<^verbatim>\<open>item.version\<close>) is \<open>None\<close> or \<open>Some\<close> of
  the name of the object referred to (an object is always true in a test).
  A dictionary is the list of its items in iteration order.
\<close>

record Extension =
  ext_name :: pyval
  ext_nameString :: pyval
  ext_specVersion :: pyval
  ext_instance :: pyval
  ext_device :: pyval
  ext_depends :: pyval
  ext_vendorTag :: pyval
  ext_platform :: pyval
  ext_protect :: pyval
  ext_provisional :: pyval
  ext_promotedTo :: pyval
  ext_deprecatedBy :: pyval
  ext_obsoletedBy :: pyval
  ext_specialUse :: "string list"
  ext_handles :: "string list"
  ext_commands :: "string list"
  ext_structs :: "string list"
  ext_enums :: "string list"
  ext_bitmasks :: "string list"
  ext_flags :: "(pyval \<times> string list) list"
  ext_enumFields :: "(pyval \<times> string list) list"
  ext_flagBits :: "(pyval \<times> string list) list"
  ext_featureRequirement :: "FeatureRequirement list"

record Handle =
  handle_name :: pyval
  handle_aliases :: "string list"
  handle_type :: pyval
  handle_protect :: pyval
  handle_parent :: "pyval option"
  handle_instance :: pyval
  handle_device :: pyval
  handle_extensions :: "string list"

record Param =
  param_name :: pyval
  param_alias :: pyval
  param_type :: pyval
  param_fullType :: pyval
  param_const :: pyval
  param_pointer :: pyval
  param_optional :: pyval
  param_optionalPointer :: pyval
  param_length :: pyval
  param_nullTerminated :: pyval
  param_fixedSizeArray :: "string list"
  param_externSync :: pyval
  param_externSyncPointer :: pyval

record Command =
  cmd_name :: pyval
  cmd_alias :: pyval
  cmd_protect :: pyval
  cmd_version :: "pyval option"
  cmd_primary :: pyval
  cmd_secondary :: pyval
  cmd_allowNoQueues :: pyval
  cmd_tasks :: "string list"
  cmd_queues :: "string list"
  cmd_renderPass :: pyval
  cmd_videoCoding :: pyval
  cmd_returnType :: pyval
  cmd_successCodes :: "string list"
  cmd_errorCodes :: "string list"
  cmd_implicitExternSyncParams :: "string list"
  cmd_params :: "Param list"

record Member =
  member_name :: pyval
  member_type :: pyval
  member_fullType :: pyval
  member_limitType :: pyval
  member_const :: pyval
  member_pointer :: pyval
  member_fixedSizeArray :: "string list"
  member_optional :: pyval
  member_optionalPointer :: pyval
  member_externSync :: pyval
  member_bitFieldWidth :: pyval
  member_selector :: pyval
  member_selection :: "string list"

record Struct =
  struct_name :: pyval
  struct_aliases :: "string list"
  struct_extensions :: "string list"
  struct_version :: "pyval option"
  struct_protect :: pyval
  struct_union :: pyval
  struct_sType :: pyval
  struct_allowDuplicate :: pyval
  struct_extends :: "string list"
  struct_extendedBy :: "string list"
  struct_members :: "Member list"

record EnumField =
  field_name :: pyval
  field_aliases :: "string list"
  field_negative :: pyval
  field_value :: pyval
  field_extensions :: "string list"

record Enum =
  enum_name :: pyval
  enum_aliases :: "string list"
  enum_protect :: pyval
  enum_bitWidth :: pyval
  enum_returnedOnly :: pyval
  enum_extensions :: "string list"
  enum_fieldExtensions :: "string list"
  enum_fields :: "EnumField list"

record Flag =
  flag_name :: pyval
  flag_aliases :: "string list"
  flag_protect :: pyval
  flag_value :: pyval
  flag_multiBit :: pyval
  flag_zero :: pyval
  flag_extensions :: "string list"

record Bitmask =
  bitmask_name :: pyval
  bitmask_aliases :: "string list"
  bitmask_protect :: pyval
  bitmask_flagName :: pyval
  bitmask_bitWidth :: pyval
  bitmask_returnedOnly :: pyval
  bitmask_extensions :: "string list"
  bitmask_flagExtensions :: "string list"
  bitmask_flags :: "Flag list"

record Flags =
  flags_name :: pyval
  flags_aliases :: "string list"
  flags_bitmaskName :: pyval
  flags_protect :: pyval
  flags_baseFlagsType :: pyval
  flags_bitWidth :: pyval
  flags_returnedOnly :: pyval
  flags_extensions :: "string list"

record Constant =
  constant_name :: pyval
  constant_type :: pyval
  constant_value :: pyval

record SpirvEnables =
  enable_version :: pyval
  enable_extension :: pyval
  enable_struct :: pyval
  enable_feature :: pyval
  enable_requires :: pyval
  enable_property :: pyval
  enable_member :: pyval
  enable_value :: pyval

record Spirv =
  spirv_name :: pyval
  spirv_extension :: pyval
  spirv_enable :: "SpirvEnables list"

text \<open>
  The object \<^verbatim>\<open>get_vulkan_object()\<close> returns. The script also walks
  \<^verbatim>\<open>formats\<close>, \<^verbatim>\<open>syncStage\<close>, \<^verbatim>\<open>syncAccess\<close>, \<^verbatim>\<open>syncPipeline\<close> and
  \<^verbatim>\<open>videoCodecs\<close> with an empty loop body; they print nothing and are left out.
\<close>

record VulkanObject =
  extensions :: "Extension list"
  versions :: "Version list"
  handles :: "Handle list"
  commands :: "Command list"
  structs :: "Struct list"
  enums :: "Enum list"
  bitmasks :: "Bitmask list"
  flags :: "Flags list"
  constants :: "Constant list"
  spirv :: "Spirv list"
  platforms :: "(pyval \<times> pyval) list"
  vendorTags :: "string list"

text \<open>The exception an unbound global name raises.\<close>

datatype error = NameError

subsection \<open>The record functions\<close>

text \<open>The body of the loops over \<^verbatim>\<open>item.featureRequirement\<close>.\<close>

definition feature_requirement_lines :: "FeatureRequirement \<Rightarrow> string list" where
  "feature_requirement_lines fr =
     [''[[feature_requirement]]'',
      ''struct = '' @ py_str (fr_struct fr),
      ''field = '' @ py_str (fr_field fr),
      ''depends = '' @ or_null (fr_depends fr)]"

text \<open>The bodies of the loops over the items of \<^verbatim>\<open>item.flags\<close>,
  \<^verbatim>\<open>item.enumFields\<close> and \<^verbatim>\<open>item.flagBits\<close>.\<close>

definition ext_flags_lines :: "pyval \<times> string list \<Rightarrow> string list" where
  "ext_flags_lines nf =
     [''[[flags]]'',
      ''flag = '' @ py_str (fst nf),
      ''flags = '' @ bracket_join (snd nf)]"

definition ext_enum_fields_lines :: "pyval \<times> string list \<Rightarrow> string list" where
  "ext_enum_fields_lines nf =
     [''[[enum_fields]]'',
      ''enum = '' @ py_str (fst nf),
      ''fields = '' @ bracket_join (snd nf)]"

definition ext_flag_bits_lines :: "pyval \<times> string list \<Rightarrow> string list" where
  "ext_flag_bits_lines nf =
     [''[[flag_bits]]'',
      ''flag = '' @ py_str (fst nf),
      ''bits = '' @ bracket_join (snd nf)]"

definition extension_to_toml :: "Extension \<Rightarrow> string list" where
  "extension_to_toml item =
     [''[[extension]]'',
      ''name = '' @ py_str (ext_name item),
      ''name_string = '' @ py_str (ext_nameString item),
      ''spec_version_string = '' @ py_str (ext_specVersion item),
      ''instance = '' @ true_false (ext_instance item),
      ''device = '' @ true_false (ext_device item),
      ''depends = '' @ or_null (ext_depends item),
      ''vendor_tag = '' @ or_null (ext_vendorTag item),
      ''platform = '' @ or_null (ext_platform item),
      ''protect = '' @ or_null (ext_protect item),
      ''provisional = '' @ true_false (ext_provisional item),
      ''promoted_to = '' @ or_null (ext_promotedTo item),
      ''deprecated_by = '' @ or_null (ext_deprecatedBy item),
      ''obsoleted_by = '' @ or_null (ext_obsoletedBy item),
      ''special_use = '' @ str_join '','' (ext_specialUse item),
      ''handles = '' @ bracket_join (ext_handles item),
      ''commands = '' @ bracket_join (ext_commands item),
      ''structs = '' @ bracket_join (ext_structs item),
      ''enums = '' @ bracket_join (ext_enums item),
      ''bitmasks = '' @ bracket_join (ext_bitmasks item)]
     @ concat (map ext_flags_lines (ext_flags item))
     @ concat (map ext_enum_fields_lines (ext_enumFields item))
     @ concat (map ext_flag_bits_lines (ext_flagBits item))
     @ concat (map feature_requirement_lines (ext_featureRequirement item))
     @ ['''']"

definition version_to_toml :: "Version \<Rightarrow> string list" where
  "version_to_toml item =
     [''[[item]]'',
      ''name = '' @ py_str (ver_name item),
      ''api = '' @ py_str (ver_nameApi item),
      ''api = '' @ py_str (ver_nameApi item)]
     @ concat (map feature_requirement_lines (ver_featureRequirement item))
     @ ['''']"

definition handle_to_toml :: "Handle \<Rightarrow> string list" where
  "handle_to_toml item =
     [''[[item]]'',
      ''name = '' @ py_str (handle_name item),
      ''aliases = '' @ bracket_join (handle_aliases item),
      ''type = '' @ py_str (handle_type item),
      ''protect = '' @ or_null (handle_protect item),
      ''parent = '' @ (case handle_parent item of Some n \<Rightarrow> py_str n | None \<Rightarrow> ''null''),
      ''instance = '' @ true_false (handle_instance item),
      ''devices = '' @ true_false (handle_device item),
      ''extensions = '' @ bracket_join (handle_extensions item),
      '''']"

text \<open>The body of the loop over \<^verbatim>\<open>item.params\<close>.\<close>

definition parameter_lines :: "Param \<Rightarrow> string list" where
  "parameter_lines param =
     [''[[parameter]]'',
      ''name = '' @ py_str (param_name param),
      ''alias = '' @ py_str (param_alias param),
      ''type = '' @ py_str (param_type param),
      ''full_type = '' @ py_str (param_fullType param),
      ''const = '' @ true_false (param_const param),
      ''pointer = '' @ true_false (param_pointer param),
      ''optional = '' @ true_false (param_optional param),
      ''optional_pointer = '' @ true_false (param_optionalPointer param),
      ''length = '' @ or_null (param_length param),
      ''null_terminated = '' @ true_false (param_nullTerminated param),
      ''array_size = '' @ bracket_join (param_fixedSizeArray param),
      ''extern_sync = '' @ py_str (param_externSync param),
      ''extern_sync_pointer = '' @ or_null (param_externSyncPointer param)]"

text \<open>
  \<^verbatim>\<open>command_to_toml\<close> reads \<^verbatim>\<open>handle\<close>, which is not a parameter or a local of
  the function but the module's global of that name: the first argument here, \<open>None\<close>
  while the name is unbound. The first five lines are printed before the name is read;
  reading it unbound raises \<^verbatim>\<open>NameError\<close>, which ends the run.
  The result is the lines printed and the exception raised, if any.
\<close>

definition command_to_toml :: "Handle option \<Rightarrow> Command \<Rightarrow> string list \<times> error option" where
  "command_to_toml global_handle item =
     (let printed =
        [''[[item]]'',
         ''name = '' @ py_str (cmd_name item),
         ''alias = '' @ or_null (cmd_alias item),
         ''protect = '' @ or_null (cmd_protect item),
         ''version = '' @ (case cmd_version item of Some n \<Rightarrow> py_str n | None \<Rightarrow> ''null'')]
      in case global_handle of
        None \<Rightarrow> (printed, Some NameError)
      | Some handle \<Rightarrow>
          (printed @
           [''instance = '' @ true_false (handle_instance handle),
            ''devices = '' @ true_false (handle_device handle),
            ''primary = '' @ true_false (cmd_primary item),
            ''secondary = '' @ true_false (cmd_secondary item),
            ''allow_no_queues = '' @ true_false (cmd_allowNoQueues item),
            ''extensions = '' @ bracket_join (handle_extensions handle),
            ''tasks = '' @ bracket_join (cmd_tasks item),
            ''queues = '' @ bracket_join (cmd_queues item),
            ''render_pass = '' @ py_str (cmd_renderPass item),
            ''video_conding = '' @ py_str (cmd_videoCoding item),
            ''return_type = '' @ py_str (cmd_returnType item),
            ''success_codes = '' @ bracket_join (cmd_successCodes item),
            ''error_codes = '' @ bracket_join (cmd_errorCodes item),
            ''implicit_extern_sync_params = '' @ bracket_join (cmd_implicitExternSyncParams item)]
           @ concat (map parameter_lines (cmd_params item))
           @ [''''],
           None))"

text \<open>The body of the loop over \<^verbatim>\<open>item.members\<close>.\<close>

definition member_lines :: "Member \<Rightarrow> string list" where
  "member_lines member =
     [''[[member]]'',
      ''name = '' @ py_str (member_name member),
      ''type = '' @ py_str (member_type member),
      ''full_type = '' @ py_str (member_fullType member),
      ''limit_type = '' @ or_null (member_limitType member),
      ''const = '' @ true_false (member_const member),
      ''pointer = '' @ true_false (member_pointer member),
      ''array_size = '' @ bracket_join (member_fixedSizeArray member),
      ''optional = '' @ true_false (member_optional member),
      ''optional_ptr = '' @ true_false (member_optionalPointer member),
      ''extern_sync = '' @ py_str (member_externSync member),
      ''bits = '' @ or_null (member_bitFieldWidth member),
      ''selector = '' @ or_null (member_selector member),
      ''selection = '' @ bracket_join (member_selection member)]"

definition struct_to_toml :: "Struct \<Rightarrow> string list" where
  "struct_to_toml item =
     [''[[item]]'',
      ''name = '' @ py_str (struct_name item),
      ''aliases = '' @ bracket_join (struct_aliases item),
      ''extensions = '' @ bracket_join (struct_extensions item),
      ''version = '' @ (case struct_version item of Some n \<Rightarrow> py_str n | None \<Rightarrow> ''VK_VERSION_1_0''),
      ''protect = '' @ or_null (struct_protect item),
      ''union = '' @ true_false (struct_union item),
      ''sType = '' @ or_null (struct_sType item),
      ''allow_duplicate = '' @ true_false (struct_allowDuplicate item),
      ''extends = '' @ bracket_join (struct_extends item),
      ''extended_by = '' @ bracket_join (struct_extendedBy item)]
     @ concat (map member_lines (struct_members item))
     @ ['''']"

text \<open>The body of the loop over \<^verbatim>\<open>item.fields\<close>.\<close>

definition field_lines :: "EnumField \<Rightarrow> string list" where
  "field_lines m =
     [''[[field]]'',
      ''name = '' @ py_str (field_name m),
      ''aliases = '' @ bracket_join (field_aliases m),
      ''negative = '' @ true_false (field_negative m),
      ''value = '' @ py_str (field_value m),
      ''extensions = '' @ bracket_join (field_extensions m)]"

definition enum_to_toml :: "Enum \<Rightarrow> string list" where
  "enum_to_toml item =
     [''[[enum]]'',
      ''name = '' @ py_str (enum_name item),
      ''aliases = '' @ bracket_join (enum_aliases item),
      ''protect = '' @ or_null (enum_protect item),
      ''bitwidth = '' @ py_str (enum_bitWidth item),
      ''return_only = '' @ true_false (enum_returnedOnly item),
      ''extensions = '' @ bracket_join (enum_extensions item),
      ''field_extensions = '' @ bracket_join (enum_fieldExtensions item)]
     @ concat (map field_lines (enum_fields item))
     @ ['''']"

text \<open>The body of the loop over \<^verbatim>\<open>item.flags\<close> of a bitmask.\<close>

definition flag_lines :: "Flag \<Rightarrow> string list" where
  "flag_lines m =
     [''[[flag]]'',
      ''name = '' @ py_str (flag_name m),
      ''aliases = '' @ bracket_join (flag_aliases m),
      ''protect = '' @ or_null (flag_protect m),
      ''value = '' @ py_str (flag_value m),
      ''multibit = '' @ true_false (flag_multiBit m),
      ''zero = '' @ true_false (flag_zero m),
      ''extensions = '' @ bracket_join (flag_extensions m)]"

definition bitmask_to_toml :: "Bitmask \<Rightarrow> string list" where
  "bitmask_to_toml item =
     [''[[bitmask]]'',
      ''name = '' @ py_str (bitmask_name item),
      ''aliases = '' @ bracket_join (bitmask_aliases item),
      ''protect = '' @ or_null (bitmask_protect item),
      ''flags_name = '' @ py_str (bitmask_flagName item),
      ''bitwidth = '' @ py_str (bitmask_bitWidth item),
      ''return_only = '' @ true_false (bitmask_returnedOnly item),
      ''extensions = '' @ bracket_join (bitmask_extensions item),
      ''flag_extensions = '' @ bracket_join (bitmask_flagExtensions item)]
     @ concat (map flag_lines (bitmask_flags item))
     @ ['''']"

definition flags_to_toml :: "Flags \<Rightarrow> string list" where
  "flags_to_toml item =
     [''[[flags]]'',
      ''name = '' @ py_str (flags_name item),
      ''aliases = '' @ bracket_join (flags_aliases item),
      ''bitmask_name = '' @ or_null (flags_bitmaskName item),
      ''protect = '' @ or_null (flags_protect item),
      ''base_flags_type = '' @ py_str (flags_baseFlagsType item),
      ''bitwidth = '' @ py_str (flags_bitWidth item),
      ''return_only = '' @ true_false (flags_returnedOnly item),
      ''extensions = '' @ bracket_join (flags_extensions item),
      '''']"

definition constant_to_toml :: "Constant \<Rightarrow> string list" where
  "constant_to_toml item =
     [''[[constant]]'',
      ''name = '' @ py_str (constant_name item),
      ''type = '' @ py_str (constant_type item),
      ''value = '' @ py_str (constant_value item),
      '''']"

text \<open>The body of the loop over \<^verbatim>\<open>item.enable\<close>.\<close>

definition enable_lines :: "SpirvEnables \<Rightarrow> string list" where
  "enable_lines m =
     [''[[enable]]'',
      ''version = '' @ or_null (enable_version m),
      ''extension = '' @ or_null (enable_extension m),
      ''struct = '' @ or_null (enable_struct m),
      ''feature = '' @ or_null (enable_feature m),
      ''requires = '' @ or_null (enable_requires m),
      ''property = '' @ or_null (enable_property m),
      ''member = '' @ or_null (enable_member m),
      ''value = '' @ or_null (enable_value m)]"

definition spirv_to_toml :: "Spirv \<Rightarrow> string list" where
  "spirv_to_toml item =
     [if truthy (spirv_extension item) then ''[[spirv_extension]]'' else ''[[spirv_capability]]'',
      ''name = '' @ py_str (spirv_name item)]
     @ concat (map enable_lines (spirv_enable item))
     @ ['''']"

text \<open>The body of the loop over the items of \<^verbatim>\<open>vk.platforms\<close>.\<close>

definition platform_lines :: "pyval \<times> pyval \<Rightarrow> string list" where
  "platform_lines ne =
     [''[[platform]]'',
      ''name = '' @ py_str (fst ne),
      ''ext = '' @ py_str (snd ne),
      '''']"

text \<open>The three prints after the loops.\<close>

definition vendor_tags_lines :: "VulkanObject \<Rightarrow> string list" where
  "vendor_tags_lines vk =
     [''[vendor_tags]'',
      ''tags = '' @ bracket_join (vendorTags vk),
      '''']"

subsection \<open>The traversal\<close>

text \<open>
  A loop whose body may raise: the lines of the bodies that ran, up to and including the one
  that raised.
\<close>

fun for_each :: "('a \<Rightarrow> string list \<times> error option) \<Rightarrow> 'a list \<Rightarrow> string list \<times> error option" where
  "for_each f [] = ([], None)"
| "for_each f (x # xs) =
     (case f x of
        (out, Some e) \<Rightarrow> (out, Some e)
      | (out, None) \<Rightarrow> (case for_each f xs of (out', r) \<Rightarrow> (out @ out', r)))"

text \<open>
  The value of the global \<^verbatim>\<open>handle\<close> once
  \<^verbatim>\<open>for handle in vk.handles.values()\<close> has finished: the last handle, or unbound when
  there was none.
\<close>

definition handle_after_loop :: "Handle list \<Rightarrow> Handle option" where
  "handle_after_loop hs = (if hs = [] then None else Some (last hs))"

text \<open>The module's top-level code: the lines written, and the exception that ended it, if any.\<close>

definition main :: "VulkanObject \<Rightarrow> string list \<times> error option" where
  "main vk =
     (let before_commands =
            concat (map extension_to_toml (extensions vk))
          @ concat (map version_to_toml (versions vk))
          @ concat (map handle_to_toml (handles vk));
          handle = handle_after_loop (handles vk)
      in case for_each (command_to_toml handle) (commands vk) of
        (out, Some e) \<Rightarrow> (before_commands @ out, Some e)
      | (out, None) \<Rightarrow>
          (before_commands @ out
           @ concat (map struct_to_toml (structs vk))
           @ concat (map enum_to_toml (enums vk))
           @ concat (map bitmask_to_toml (bitmasks vk))
           @ concat (map flags_to_toml (flags vk))
           @ concat (map constant_to_toml (constants vk))
           @ concat (map spirv_to_toml (spirv vk))
           @ concat (map platform_lines (platforms vk))
           @ vendor_tags_lines vk,
           None))"

subsection \<open>Reading the output\<close>

text \<open>A key-value line with key \<open>k\<close> starts with \<open>k\<close>, a space, the equals sign, a space.\<close>

definition has_key :: "string \<Rightarrow> string \<Rightarrow> bool" where
  "has_key k l = prefix (k @ '' = '') l"

text \<open>An array-of-tables header starts with two opening brackets.\<close>

definition is_array_header :: "string \<Rightarrow> bool" where
  "is_array_header l = prefix ''[['' l"

text \<open>A singleton header is a name between one pair of brackets.\<close>

definition is_singleton_header :: "string \<Rightarrow> bool" where
  "is_singleton_header l = (prefix ''['' l \<and> \<not> prefix ''[['' l \<and> suffix '']'' l)"

subsection \<open>What the specification asks for\<close>

text \<open>
  The specification's owning handle of a command: the handle whose name is the type of the
  command's first parameter. The script has no such lookup; this definition follows the
  specification's words and is what the script's choice of handle is compared with.
\<close>

definition spec_owning_handle :: "VulkanObject \<Rightarrow> Command \<Rightarrow> Handle option" where
  "spec_owning_handle vk c =
     (case cmd_params c of
        [] \<Rightarrow> None
      | p # _ \<Rightarrow> find (\<lambda>h. handle_name h = param_type p) (handles vk))"

subsection \<open>Example entities\<close>

text \<open>Every optional attribute of these entities is absent.\<close>

definition ex_fr :: FeatureRequirement where
  "ex_fr = \<lparr>fr_struct = PStr ''VkPhysicalDeviceFeatures'', fr_field = PStr ''robustBufferAccess'',
            fr_depends = PNone\<rparr>"

definition ex_extension :: Extension where
  "ex_extension =
     \<lparr>ext_name = PStr ''VK_KHR_swapchain'',
      ext_nameString = PStr ''VK_KHR_SWAPCHAIN_EXTENSION_NAME'',
      ext_specVersion = PStr ''VK_KHR_SWAPCHAIN_SPEC_VERSION'',
      ext_instance = PBool False, ext_device = PBool True,
      ext_depends = PNone, ext_vendorTag = PNone, ext_platform = PNone, ext_protect = PNone,
      ext_provisional = PBool False,
      ext_promotedTo = PNone, ext_deprecatedBy = PNone, ext_obsoletedBy = PNone,
      ext_specialUse = [''A'', ''B''],
      ext_handles = [], ext_commands = [''vkCreateSwapchainKHR''], ext_structs = [],
      ext_enums = [], ext_bitmasks = [],
      ext_flags = [], ext_enumFields = [], ext_flagBits = [],
      ext_featureRequirement = [ex_fr]\<rparr>"

definition ex_version :: Version where
  "ex_version = \<lparr>ver_name = PStr ''VK_VERSION_1_0'', ver_nameApi = PStr ''VK_API_VERSION_1_0'',
                 ver_featureRequirement = [ex_fr]\<rparr>"

definition ex_handle_A :: Handle where
  "ex_handle_A =
     \<lparr>handle_name = PStr ''VkInstance'', handle_aliases = [], handle_type = PStr ''VK_OBJECT_TYPE_INSTANCE'',
      handle_protect = PNone, handle_parent = None,
      handle_instance = PBool True, handle_device = PBool False,
      handle_extensions = [''E_A'']\<rparr>"

definition ex_handle_B :: Handle where
  "ex_handle_B =
     \<lparr>handle_name = PStr ''VkQueue'', handle_aliases = [], handle_type = PStr ''VK_OBJECT_TYPE_QUEUE'',
      handle_protect = PNone, handle_parent = Some (PStr ''VkDevice''),
      handle_instance = PBool False, handle_device = PBool True,
      handle_extensions = [''E_B'']\<rparr>"

definition ex_param :: Param where
  "ex_param =
     \<lparr>param_name = PStr ''instance'', param_alias = PNone, param_type = PStr ''VkInstance'',
      param_fullType = PStr ''VkInstance'',
      param_const = PBool False, param_pointer = PBool False, param_optional = PBool False,
      param_optionalPointer = PBool False, param_length = PNone,
      param_nullTerminated = PBool False, param_fixedSizeArray = [],
      param_externSync = PBool True, param_externSyncPointer = PNone\<rparr>"

definition ex_command :: Command where
  "ex_command =
     \<lparr>cmd_name = PStr ''vkDestroyInstance'', cmd_alias = PNone, cmd_protect = PNone,
      cmd_version = None,
      cmd_primary = PBool False, cmd_secondary = PBool False, cmd_allowNoQueues = PBool False,
      cmd_tasks = [], cmd_queues = [],
      cmd_renderPass = PStr ''both'', cmd_videoCoding = PStr ''both'',
      cmd_returnType = PStr ''void'',
      cmd_successCodes = [], cmd_errorCodes = [], cmd_implicitExternSyncParams = [],
      cmd_params = [ex_param]\<rparr>"

definition ex_member :: Member where
  "ex_member =
     \<lparr>member_name = PStr ''flags'', member_type = PStr ''uint32_t'',
      member_fullType = PStr ''uint32_t'', member_limitType = PNone,
      member_const = PBool False, member_pointer = PBool False, member_fixedSizeArray = [],
      member_optional = PBool False, member_optionalPointer = PBool False,
      member_externSync = PBool True,
      member_bitFieldWidth = PNone, member_selector = PNone,
      member_selection = [''VARIANT_A'', ''VARIANT_B'']\<rparr>"

definition ex_struct :: Struct where
  "ex_struct =
     \<lparr>struct_name = PStr ''VkExtent2D'', struct_aliases = [], struct_extensions = [],
      struct_version = None, struct_protect = PNone, struct_union = PBool False,
      struct_sType = PNone, struct_allowDuplicate = PBool False,
      struct_extends = [], struct_extendedBy = [],
      struct_members = [ex_member]\<rparr>"

definition ex_field :: EnumField where
  "ex_field = \<lparr>field_name = PStr ''VK_SUCCESS'', field_aliases = [], field_negative = PBool False,
               field_value = PInt 0, field_extensions = []\<rparr>"

definition ex_enum :: Enum where
  "ex_enum =
     \<lparr>enum_name = PStr ''VkResult'', enum_aliases = [], enum_protect = PNone,
      enum_bitWidth = PInt 32, enum_returnedOnly = PBool False,
      enum_extensions = [], enum_fieldExtensions = [], enum_fields = [ex_field]\<rparr>"

definition ex_flag :: Flag where
  "ex_flag = \<lparr>flag_name = PStr ''VK_QUEUE_GRAPHICS_BIT'', flag_aliases = [], flag_protect = PNone,
              flag_value = PInt 1, flag_multiBit = PBool False, flag_zero = PBool False,
              flag_extensions = []\<rparr>"

definition ex_bitmask :: Bitmask where
  "ex_bitmask =
     \<lparr>bitmask_name = PStr ''VkQueueFlagBits'', bitmask_aliases = [], bitmask_protect = PNone,
      bitmask_flagName = PStr ''VkQueueFlags'', bitmask_bitWidth = PInt 32,
      bitmask_returnedOnly = PBool False,
      bitmask_extensions = [], bitmask_flagExtensions = [], bitmask_flags = [ex_flag]\<rparr>"

definition ex_flags :: Flags where
  "ex_flags =
     \<lparr>flags_name = PStr ''VkQueueFlags'', flags_aliases = [], flags_bitmaskName = PNone,
      flags_protect = PNone, flags_baseFlagsType = PStr ''VkFlags'', flags_bitWidth = PInt 32,
      flags_returnedOnly = PBool False, flags_extensions = []\<rparr>"

definition ex_constant :: Constant where
  "ex_constant = \<lparr>constant_name = PStr ''VK_TRUE'', constant_type = PStr ''uint32_t'',
                  constant_value = PInt 1\<rparr>"

definition ex_enable :: SpirvEnables where
  "ex_enable =
     \<lparr>enable_version = PNone, enable_extension = PNone, enable_struct = PNone,
      enable_feature = PNone, enable_requires = PNone, enable_property = PNone,
      enable_member = PNone, enable_value = PNone\<rparr>"

definition ex_spirv :: Spirv where
  "ex_spirv = \<lparr>spirv_name = PStr ''SPV_KHR_variable_pointers'', spirv_extension = PBool True,
               spirv_enable = [ex_enable]\<rparr>"

text \<open>The same entities with every guarded attribute present and false in a test.\<close>

definition ex_fr_falsy :: FeatureRequirement where
  "ex_fr_falsy = ex_fr\<lparr>fr_depends := PStr []\<rparr>"

definition ex_extension_falsy :: Extension where
  "ex_extension_falsy =
     ex_extension\<lparr>ext_depends := PStr [], ext_vendorTag := PStr [], ext_platform := PStr [],
       ext_protect := PStr [], ext_promotedTo := PBool False, ext_deprecatedBy := PInt 0,
       ext_obsoletedBy := PStr []\<rparr>"

definition ex_handle_falsy :: Handle where
  "ex_handle_falsy = ex_handle_A\<lparr>handle_protect := PStr []\<rparr>"

definition ex_param_falsy :: Param where
  "ex_param_falsy = ex_param\<lparr>param_length := PStr [], param_externSyncPointer := PBool False\<rparr>"

definition ex_command_falsy :: Command where
  "ex_command_falsy = ex_command\<lparr>cmd_alias := PStr [], cmd_protect := PStr []\<rparr>"

definition ex_member_falsy :: Member where
  "ex_member_falsy =
     ex_member\<lparr>member_limitType := PStr [], member_bitFieldWidth := PInt 0,
       member_selector := PStr []\<rparr>"

definition ex_struct_falsy :: Struct where
  "ex_struct_falsy = ex_struct\<lparr>struct_protect := PStr [], struct_sType := PStr []\<rparr>"

definition ex_enum_falsy :: Enum where
  "ex_enum_falsy = ex_enum\<lparr>enum_protect := PStr []\<rparr>"

definition ex_flag_falsy :: Flag where
  "ex_flag_falsy = ex_flag\<lparr>flag_protect := PStr []\<rparr>"

definition ex_bitmask_falsy :: Bitmask where
  "ex_bitmask_falsy = ex_bitmask\<lparr>bitmask_protect := PStr []\<rparr>"

definition ex_flags_falsy :: Flags where
  "ex_flags_falsy = ex_flags\<lparr>flags_bitmaskName := PStr [], flags_protect := PStr []\<rparr>"

definition ex_enable_falsy :: SpirvEnables where
  "ex_enable_falsy =
     \<lparr>enable_version = PStr [], enable_extension = PStr [], enable_struct = PStr [],
      enable_feature = PStr [], enable_requires = PStr [], enable_property = PStr [],
      enable_member = PStr [], enable_value = PInt 0\<rparr>"

text \<open>Models: the empty one, one with every category filled, one with handles and a command
  only, one with a command and nothing else, and the filled one without its handles.\<close>

definition ex_vk_empty :: VulkanObject where
  "ex_vk_empty =
     \<lparr>extensions = [], versions = [], handles = [], commands = [], structs = [], enums = [],
      bitmasks = [], flags = [], constants = [], spirv = [], platforms = [], vendorTags = []\<rparr>"

definition ex_vk :: VulkanObject where
  "ex_vk =
     \<lparr>extensions = [ex_extension], versions = [ex_version],
      handles = [ex_handle_A, ex_handle_B], commands = [ex_command],
      structs = [ex_struct], enums = [ex_enum], bitmasks = [ex_bitmask], flags = [ex_flags],
      constants = [ex_constant], spirv = [ex_spirv],
      platforms = [(PStr ''xlib'', PStr ''VK_USE_PLATFORM_XLIB_KHR'')],
      vendorTags = [''KHR'', ''EXT'']\<rparr>"

definition ex_vk_two_handles :: VulkanObject where
  "ex_vk_two_handles = ex_vk_empty\<lparr>handles := [ex_handle_A, ex_handle_B], commands := [ex_command]\<rparr>"

definition ex_vk_no_handle :: VulkanObject where
  "ex_vk_no_handle = ex_vk_empty\<lparr>commands := [ex_command]\<rparr>"

definition ex_vk_filled_no_handle :: VulkanObject where
  "ex_vk_filled_no_handle = ex_vk\<lparr>handles := []\<rparr>"

section \<open>Properties\<close>

subsection \<open>Facts about the helpers and the loops\<close>

lemma or_null_falsy: "\<not> truthy x \<Longrightarrow> or_null x = ''null''"
  by (simp add: or_null_def)

lemma or_null_None: "or_null PNone = ''null''"
  by (simp add: or_null_def)

lemma true_false_cases: "true_false x = ''true'' \<or> true_false x = ''false''"
  by (simp add: true_false_def)

lemma bracket_join_Nil: "bracket_join [] = ''[]''"
  by (simp add: bracket_join_def)

lemma filter_concat_map_Nil:
  "(\<And>x. filter P (f x) = []) \<Longrightarrow> filter P (concat (map f xs)) = []"
  by (induction xs) simp_all

lemma for_each_prefix: "prefix (fst (for_each f xs)) (concat (map (\<lambda>x. fst (f x)) xs))"
  by (induction xs) (auto split: prod.splits option.splits)

lemma for_each_complete:
  "snd (for_each f xs) = None \<Longrightarrow> fst (for_each f xs) = concat (map (\<lambda>x. fst (f x)) xs)"
  by (induction xs) (auto split: prod.splits option.splits)

lemma command_to_toml_bound: "snd (command_to_toml (Some h) c) = None"
  by (simp add: command_to_toml_def)

lemma command_to_toml_unbound: "snd (command_to_toml None c) = Some NameError"
  by (simp add: command_to_toml_def)

lemma for_each_total:
  assumes "\<And>x. snd (f x) = None"
  shows "snd (for_each f xs) = None"
proof (induction xs)
  case Nil
  show ?case by simp
next
  case (Cons a xs)
  obtain out where "f a = (out, None)"
    using assms [of a] by (cases "f a") simp
  with Cons show ?case
    by (auto split: prod.splits)
qed

lemma commands_loop_bound: "snd (for_each (command_to_toml (Some h)) cs) = None"
  by (rule for_each_total) (rule command_to_toml_bound)

text \<open>The run completes when there is a handle or there is no command, and only then.\<close>

lemma main_completes:
  assumes "handles vk \<noteq> [] \<or> commands vk = []"
  shows "snd (main vk) = None"
proof (cases "handles vk = []")
  case True
  with assms have "commands vk = []" by simp
  then show ?thesis by (simp add: main_def)
next
  case False
  then have "handle_after_loop (handles vk) = Some (last (handles vk))"
    by (simp add: handle_after_loop_def)
  then show ?thesis
    using commands_loop_bound [of "last (handles vk)" "commands vk"]
    by (auto simp: main_def split: prod.splits option.splits)
qed

lemma main_raises:
  "handles vk = [] \<Longrightarrow> commands vk \<noteq> [] \<Longrightarrow> snd (main vk) = Some NameError"
  by (cases "commands vk")
    (auto simp: main_def handle_after_loop_def command_to_toml_def split: prod.splits option.splits)

subsection \<open>Lists and booleans\<close>

text \<open>
  C3. The claim: every list-valued attribute, the special-use tags of an extension among
  them, is printed between brackets, comma-joined, and the empty list as \<open>[]\<close>.
  The script prints the special-use tags comma-joined with no brackets: the tags
  \<open>A\<close>, \<open>B\<close> as \<open>special_use = A,B\<close>, and no tag as \<open>special_use = \<close> with nothing
  after the space.
\<close>

theorem C3_special_use_without_brackets:
  "extension_to_toml ex_extension ! 14 = ''special_use = A,B''
   \<and> extension_to_toml (ex_extension\<lparr>ext_specialUse := []\<rparr>) ! 14 = ''special_use = ''"
  by (simp add: extension_to_toml_def ex_extension_def)

text \<open>
  C4. The claim: every boolean attribute, the external-sync flag of a parameter and of a
  member among them, is printed as \<open>true\<close> or \<open>false\<close>.
  The script prints the external-sync flag as Python writes a boolean: \<open>True\<close> or
  \<open>False\<close>.
\<close>

theorem C4_extern_sync_printed_capitalised:
  "parameter_lines ex_param ! 12 = ''extern_sync = True''
   \<and> member_lines ex_member ! 10 = ''extern_sync = True''
   \<and> parameter_lines (ex_param\<lparr>param_externSync := PBool False\<rparr>) ! 12 = ''extern_sync = False''"
  by (simp add: parameter_lines_def member_lines_def ex_param_def ex_member_def)

subsection \<open>The lines of a record\<close>

lemma feature_requirement_no_api:
  "filter (has_key ''api'') (feature_requirement_lines fr) = []"
  by (simp add: feature_requirement_lines_def has_key_def)

text \<open>
  C5. The claim: a record has exactly one line per attribute, and a version record exactly
  one \<open>api\<close> line. Every version record the script prints has two lines with the key
  \<open>api\<close>.
\<close>

theorem C5_version_api_line_twice:
  "length (filter (has_key ''api'') (version_to_toml item)) = 2"
  by (simp add: version_to_toml_def filter_concat_map_Nil [OF feature_requirement_no_api])
    (simp add: has_key_def)

text \<open>
  C7. Every enable record of a SPIR-V item is printed, in order, between the item's name
  line and its blank line; it has nine lines, the header and exactly one line for each of
  the keys \<open>version\<close>, \<open>extension\<close>, \<open>struct\<close>, \<open>feature\<close>, \<open>requires\<close>,
  \<open>property\<close>, \<open>member\<close> and \<open>value\<close>, whatever the record holds; a field that is
  absent is printed as \<open>null\<close>.
\<close>

theorem C7_enable_record_all_fields:
  "length (enable_lines m) = 9
   \<and> map (\<lambda>k. length (filter (has_key k) (enable_lines m)))
        [''version'', ''extension'', ''struct'', ''feature'', ''requires'', ''property'',
         ''member'', ''value'']
      = [1, 1, 1, 1, 1, 1, 1, 1]
   \<and> (enable_version m = PNone \<longrightarrow> enable_lines m ! 1 = ''version = null'')
   \<and> (enable_extension m = PNone \<longrightarrow> enable_lines m ! 2 = ''extension = null'')
   \<and> (enable_struct m = PNone \<longrightarrow> enable_lines m ! 3 = ''struct = null'')
   \<and> (enable_feature m = PNone \<longrightarrow> enable_lines m ! 4 = ''feature = null'')
   \<and> (enable_requires m = PNone \<longrightarrow> enable_lines m ! 5 = ''requires = null'')
   \<and> (enable_property m = PNone \<longrightarrow> enable_lines m ! 6 = ''property = null'')
   \<and> (enable_member m = PNone \<longrightarrow> enable_lines m ! 7 = ''member = null'')
   \<and> (enable_value m = PNone \<longrightarrow> enable_lines m ! 8 = ''value = null'')
   \<and> drop 2 (spirv_to_toml item) = concat (map enable_lines (spirv_enable item)) @ ['''']"
  by (simp add: enable_lines_def spirv_to_toml_def or_null_None has_key_def)

theorem C7_enable_record_all_fields_witness:
  "enable_version ex_enable = PNone \<and> enable_extension ex_enable = PNone
   \<and> enable_struct ex_enable = PNone \<and> enable_feature ex_enable = PNone
   \<and> enable_requires ex_enable = PNone \<and> enable_property ex_enable = PNone
   \<and> enable_member ex_enable = PNone \<and> enable_value ex_enable = PNone
   \<and> enable_lines ex_enable =
       [''[[enable]]'', ''version = null'', ''extension = null'', ''struct = null'',
        ''feature = null'', ''requires = null'', ''property = null'', ''member = null'',
        ''value = null'']
   \<and> spirv_to_toml ex_spirv =
       [''[[spirv_extension]]'', ''name = SPV_KHR_variable_pointers''] @ enable_lines ex_enable @ ['''']"
  using C7_enable_record_all_fields [of ex_enable ex_spirv]
  by (simp add: ex_enable_def ex_spirv_def enable_lines_def spirv_to_toml_def or_null_def)

subsection \<open>Absent and false values\<close>

text \<open>The lines whose value goes through \<^verbatim>\<open>x if x else "null"\<close>, by position.\<close>

lemma guarded_lines:
  "extension_to_toml e ! 6 = ''depends = '' @ or_null (ext_depends e)"
  "extension_to_toml e ! 7 = ''vendor_tag = '' @ or_null (ext_vendorTag e)"
  "extension_to_toml e ! 8 = ''platform = '' @ or_null (ext_platform e)"
  "extension_to_toml e ! 9 = ''protect = '' @ or_null (ext_protect e)"
  "extension_to_toml e ! 11 = ''promoted_to = '' @ or_null (ext_promotedTo e)"
  "extension_to_toml e ! 12 = ''deprecated_by = '' @ or_null (ext_deprecatedBy e)"
  "extension_to_toml e ! 13 = ''obsoleted_by = '' @ or_null (ext_obsoletedBy e)"
  "feature_requirement_lines fr ! 3 = ''depends = '' @ or_null (fr_depends fr)"
  "handle_to_toml h ! 4 = ''protect = '' @ or_null (handle_protect h)"
  "fst (command_to_toml g c) ! 2 = ''alias = '' @ or_null (cmd_alias c)"
  "fst (command_to_toml g c) ! 3 = ''protect = '' @ or_null (cmd_protect c)"
  "parameter_lines p ! 9 = ''length = '' @ or_null (param_length p)"
  "parameter_lines p ! 13 = ''extern_sync_pointer = '' @ or_null (param_externSyncPointer p)"
  "struct_to_toml s ! 5 = ''protect = '' @ or_null (struct_protect s)"
  "struct_to_toml s ! 7 = ''sType = '' @ or_null (struct_sType s)"
  "member_lines m ! 4 = ''limit_type = '' @ or_null (member_limitType m)"
  "member_lines m ! 11 = ''bits = '' @ or_null (member_bitFieldWidth m)"
  "member_lines m ! 12 = ''selector = '' @ or_null (member_selector m)"
  "enum_to_toml en ! 3 = ''protect = '' @ or_null (enum_protect en)"
  "flag_lines fl ! 3 = ''protect = '' @ or_null (flag_protect fl)"
  "bitmask_to_toml bm ! 3 = ''protect = '' @ or_null (bitmask_protect bm)"
  "flags_to_toml fs ! 3 = ''bitmask_name = '' @ or_null (flags_bitmaskName fs)"
  "flags_to_toml fs ! 4 = ''protect = '' @ or_null (flags_protect fs)"
  "enable_lines se ! 1 = ''version = '' @ or_null (enable_version se)"
  "enable_lines se ! 2 = ''extension = '' @ or_null (enable_extension se)"
  "enable_lines se ! 3 = ''struct = '' @ or_null (enable_struct se)"
  "enable_lines se ! 4 = ''feature = '' @ or_null (enable_feature se)"
  "enable_lines se ! 5 = ''requires = '' @ or_null (enable_requires se)"
  "enable_lines se ! 6 = ''property = '' @ or_null (enable_property se)"
  "enable_lines se ! 7 = ''member = '' @ or_null (enable_member se)"
  "enable_lines se ! 8 = ''value = '' @ or_null (enable_value se)"
  by (simp_all add: extension_to_toml_def feature_requirement_lines_def handle_to_toml_def
      parameter_lines_def struct_to_toml_def member_lines_def enum_to_toml_def flag_lines_def
      bitmask_to_toml_def flags_to_toml_def enable_lines_def command_to_toml_def Let_def
      split: option.splits)

lemma reference_lines:
  "handle_to_toml h ! 5 = ''parent = '' @ (case handle_parent h of Some n \<Rightarrow> py_str n | None \<Rightarrow> ''null'')"
  "fst (command_to_toml g c) ! 4 = ''version = '' @ (case cmd_version c of Some n \<Rightarrow> py_str n | None \<Rightarrow> ''null'')"
  "struct_to_toml s ! 4 = ''version = '' @ (case struct_version s of Some n \<Rightarrow> py_str n | None \<Rightarrow> ''VK_VERSION_1_0'')"
  by (simp_all add: handle_to_toml_def command_to_toml_def struct_to_toml_def Let_def
      split: option.splits)

text \<open>The alias of a parameter is printed with no test: an absent alias as \<open>None\<close>.\<close>

lemma parameter_alias_absent:
  "param_alias p = PNone \<Longrightarrow> parameter_lines p ! 2 = ''alias = None''"
  by (simp add: parameter_lines_def)

text \<open>
  C2, as the specification states it: an absent optional attribute or reference is always
  printed as \<open>null\<close>, the owning version of a struct among them. A struct with no owning
  version is printed with \<open>version = VK_VERSION_1_0\<close>, and none of its lines is
  \<open>version = null\<close>.
\<close>

theorem C2_struct_version_counterexample:
  "struct_version ex_struct = None
   \<and> struct_to_toml ex_struct ! 4 = ''version = VK_VERSION_1_0''
   \<and> ''version = null'' \<notin> set (struct_to_toml ex_struct)"
  by (simp add: struct_to_toml_def member_lines_def ex_struct_def ex_member_def or_null_def
      true_false_def bracket_join_def)

text \<open>
  C2, amended: every attribute the script prints through \<^verbatim>\<open>x if x else "null"\<close>, the
  parent of a handle and the owning version of a command are printed as \<open>null\<close> when
  absent, each on its own line of the record; the owning version of a struct, when absent, is
  printed as \<open>VK_VERSION_1_0\<close>.
\<close>

theorem C2_absent_renders_null:
  "(ext_depends e = PNone \<longrightarrow> extension_to_toml e ! 6 = ''depends = null'')
   \<and> (ext_vendorTag e = PNone \<longrightarrow> extension_to_toml e ! 7 = ''vendor_tag = null'')
   \<and> (ext_platform e = PNone \<longrightarrow> extension_to_toml e ! 8 = ''platform = null'')
   \<and> (ext_protect e = PNone \<longrightarrow> extension_to_toml e ! 9 = ''protect = null'')
   \<and> (ext_promotedTo e = PNone \<longrightarrow> extension_to_toml e ! 11 = ''promoted_to = null'')
   \<and> (ext_deprecatedBy e = PNone \<longrightarrow> extension_to_toml e ! 12 = ''deprecated_by = null'')
   \<and> (ext_obsoletedBy e = PNone \<longrightarrow> extension_to_toml e ! 13 = ''obsoleted_by = null'')
   \<and> (fr_depends fr = PNone \<longrightarrow> feature_requirement_lines fr ! 3 = ''depends = null'')
   \<and> (handle_protect h = PNone \<longrightarrow> handle_to_toml h ! 4 = ''protect = null'')
   \<and> (cmd_alias c = PNone \<longrightarrow> fst (command_to_toml g c) ! 2 = ''alias = null'')
   \<and> (cmd_protect c = PNone \<longrightarrow> fst (command_to_toml g c) ! 3 = ''protect = null'')
   \<and> (param_length p = PNone \<longrightarrow> parameter_lines p ! 9 = ''length = null'')
   \<and> (param_externSyncPointer p = PNone \<longrightarrow> parameter_lines p ! 13 = ''extern_sync_pointer = null'')
   \<and> (struct_protect s = PNone \<longrightarrow> struct_to_toml s ! 5 = ''protect = null'')
   \<and> (struct_sType s = PNone \<longrightarrow> struct_to_toml s ! 7 = ''sType = null'')
   \<and> (member_limitType m = PNone \<longrightarrow> member_lines m ! 4 = ''limit_type = null'')
   \<and> (member_bitFieldWidth m = PNone \<longrightarrow> member_lines m ! 11 = ''bits = null'')
   \<and> (member_selector m = PNone \<longrightarrow> member_lines m ! 12 = ''selector = null'')
   \<and> (enum_protect en = PNone \<longrightarrow> enum_to_toml en ! 3 = ''protect = null'')
   \<and> (flag_protect fl = PNone \<longrightarrow> flag_lines fl ! 3 = ''protect = null'')
   \<and> (bitmask_protect bm = PNone \<longrightarrow> bitmask_to_toml bm ! 3 = ''protect = null'')
   \<and> (flags_bitmaskName fs = PNone \<longrightarrow> flags_to_toml fs ! 3 = ''bitmask_name = null'')
   \<and> (flags_protect fs = PNone \<longrightarrow> flags_to_toml fs ! 4 = ''protect = null'')
   \<and> (enable_version se = PNone \<longrightarrow> enable_lines se ! 1 = ''version = null'')
   \<and> (enable_extension se = PNone \<longrightarrow> enable_lines se ! 2 = ''extension = null'')
   \<and> (enable_struct se = PNone \<longrightarrow> enable_lines se ! 3 = ''struct = null'')
   \<and> (enable_feature se = PNone \<longrightarrow> enable_lines se ! 4 = ''feature = null'')
   \<and> (enable_requires se = PNone \<longrightarrow> enable_lines se ! 5 = ''requires = null'')
   \<and> (enable_property se = PNone \<longrightarrow> enable_lines se ! 6 = ''property = null'')
   \<and> (enable_member se = PNone \<longrightarrow> enable_lines se ! 7 = ''member = null'')
   \<and> (enable_value se = PNone \<longrightarrow> enable_lines se ! 8 = ''value = null'')
   \<and> (handle_parent h = None \<longrightarrow> handle_to_toml h ! 5 = ''parent = null'')
   \<and> (cmd_version c = None \<longrightarrow> fst (command_to_toml g c) ! 4 = ''version = null'')
   \<and> (struct_version s = None \<longrightarrow> struct_to_toml s ! 4 = ''version = VK_VERSION_1_0'')"
  by (simp add: guarded_lines reference_lines or_null_None del: One_nat_def)

theorem C2_absent_renders_null_witness:
  "ext_depends ex_extension = PNone \<and> extension_to_toml ex_extension ! 6 = ''depends = null''
   \<and> ext_vendorTag ex_extension = PNone \<and> extension_to_toml ex_extension ! 7 = ''vendor_tag = null''
   \<and> ext_platform ex_extension = PNone \<and> extension_to_toml ex_extension ! 8 = ''platform = null''
   \<and> ext_protect ex_extension = PNone \<and> extension_to_toml ex_extension ! 9 = ''protect = null''
   \<and> ext_promotedTo ex_extension = PNone \<and> extension_to_toml ex_extension ! 11 = ''promoted_to = null''
   \<and> ext_deprecatedBy ex_extension = PNone \<and> extension_to_toml ex_extension ! 12 = ''deprecated_by = null''
   \<and> ext_obsoletedBy ex_extension = PNone \<and> extension_to_toml ex_extension ! 13 = ''obsoleted_by = null''
   \<and> fr_depends ex_fr = PNone \<and> feature_requirement_lines ex_fr ! 3 = ''depends = null''
   \<and> handle_protect ex_handle_A = PNone \<and> handle_to_toml ex_handle_A ! 4 = ''protect = null''
   \<and> cmd_alias ex_command = PNone \<and> fst (command_to_toml (Some ex_handle_A) ex_command) ! 2 = ''alias = null''
   \<and> cmd_protect ex_command = PNone \<and> fst (command_to_toml (Some ex_handle_A) ex_command) ! 3 = ''protect = null''
   \<and> param_length ex_param = PNone \<and> parameter_lines ex_param ! 9 = ''length = null''
   \<and> param_externSyncPointer ex_param = PNone \<and> parameter_lines ex_param ! 13 = ''extern_sync_pointer = null''
   \<and> struct_protect ex_struct = PNone \<and> struct_to_toml ex_struct ! 5 = ''protect = null''
   \<and> struct_sType ex_struct = PNone \<and> struct_to_toml ex_struct ! 7 = ''sType = null''
   \<and> member_limitType ex_member = PNone \<and> member_lines ex_member ! 4 = ''limit_type = null''
   \<and> member_bitFieldWidth ex_member = PNone \<and> member_lines ex_member ! 11 = ''bits = null''
   \<and> member_selector ex_member = PNone \<and> member_lines ex_member ! 12 = ''selector = null''
   \<and> enum_protect ex_enum = PNone \<and> enum_to_toml ex_enum ! 3 = ''protect = null''
   \<and> flag_protect ex_flag = PNone \<and> flag_lines ex_flag ! 3 = ''protect = null''
   \<and> bitmask_protect ex_bitmask = PNone \<and> bitmask_to_toml ex_bitmask ! 3 = ''protect = null''
   \<and> flags_bitmaskName ex_flags = PNone \<and> flags_to_toml ex_flags ! 3 = ''bitmask_name = null''
   \<and> flags_protect ex_flags = PNone \<and> flags_to_toml ex_flags ! 4 = ''protect = null''
   \<and> enable_version ex_enable = PNone \<and> enable_lines ex_enable ! 1 = ''version = null''
   \<and> enable_extension ex_enable = PNone \<and> enable_lines ex_enable ! 2 = ''extension = null''
   \<and> enable_struct ex_enable = PNone \<and> enable_lines ex_enable ! 3 = ''struct = null''
   \<and> enable_feature ex_enable = PNone \<and> enable_lines ex_enable ! 4 = ''feature = null''
   \<and> enable_requires ex_enable = PNone \<and> enable_lines ex_enable ! 5 = ''requires = null''
   \<and> enable_property ex_enable = PNone \<and> enable_lines ex_enable ! 6 = ''property = null''
   \<and> enable_member ex_enable = PNone \<and> enable_lines ex_enable ! 7 = ''member = null''
   \<and> enable_value ex_enable = PNone \<and> enable_lines ex_enable ! 8 = ''value = null''
   \<and> handle_parent ex_handle_A = None \<and> handle_to_toml ex_handle_A ! 5 = ''parent = null''
   \<and> cmd_version ex_command = None \<and> fst (command_to_toml (Some ex_handle_A) ex_command) ! 4 = ''version = null''
   \<and> struct_version ex_struct = None \<and> struct_to_toml ex_struct ! 4 = ''version = VK_VERSION_1_0''"
  using C2_absent_renders_null [where e = ex_extension and fr = ex_fr and h = ex_handle_A and c = ex_command and p = ex_param and s = ex_struct and m = ex_member and en = ex_enum and fl = ex_flag and bm = ex_bitmask and fs = ex_flags and se = ex_enable and g = "Some ex_handle_A"]
  by (simp add: ex_extension_def ex_fr_def ex_handle_A_def ex_command_def ex_param_def ex_struct_def ex_member_def ex_enum_def ex_flag_def ex_bitmask_def ex_flags_def ex_enable_def)

text \<open>
  C9. A guarded attribute that is present but false in a test (the number 0, the empty
  string, the boolean false) is printed as \<open>null\<close>, as an absent one is: a member whose
  bit-field width is 0 has the line \<open>bits = null\<close>, an enable record whose value is 0 the
  line \<open>value = null\<close>.
\<close>

theorem C9_falsy_renders_null:
  "(\<not> truthy (ext_depends e) \<longrightarrow> extension_to_toml e ! 6 = ''depends = null'')
   \<and> (\<not> truthy (ext_vendorTag e) \<longrightarrow> extension_to_toml e ! 7 = ''vendor_tag = null'')
   \<and> (\<not> truthy (ext_platform e) \<longrightarrow> extension_to_toml e ! 8 = ''platform = null'')
   \<and> (\<not> truthy (ext_protect e) \<longrightarrow> extension_to_toml e ! 9 = ''protect = null'')
   \<and> (\<not> truthy (ext_promotedTo e) \<longrightarrow> extension_to_toml e ! 11 = ''promoted_to = null'')
   \<and> (\<not> truthy (ext_deprecatedBy e) \<longrightarrow> extension_to_toml e ! 12 = ''deprecated_by = null'')
   \<and> (\<not> truthy (ext_obsoletedBy e) \<longrightarrow> extension_to_toml e ! 13 = ''obsoleted_by = null'')
   \<and> (\<not> truthy (fr_depends fr) \<longrightarrow> feature_requirement_lines fr ! 3 = ''depends = null'')
   \<and> (\<not> truthy (handle_protect h) \<longrightarrow> handle_to_toml h ! 4 = ''protect = null'')
   \<and> (\<not> truthy (cmd_alias c) \<longrightarrow> fst (command_to_toml g c) ! 2 = ''alias = null'')
   \<and> (\<not> truthy (cmd_protect c) \<longrightarrow> fst (command_to_toml g c) ! 3 = ''protect = null'')
   \<and> (\<not> truthy (param_length p) \<longrightarrow> parameter_lines p ! 9 = ''length = null'')
   \<and> (\<not> truthy (param_externSyncPointer p) \<longrightarrow> parameter_lines p ! 13 = ''extern_sync_pointer = null'')
   \<and> (\<not> truthy (struct_protect s) \<longrightarrow> struct_to_toml s ! 5 = ''protect = null'')
   \<and> (\<not> truthy (struct_sType s) \<longrightarrow> struct_to_toml s ! 7 = ''sType = null'')
   \<and> (\<not> truthy (member_limitType m) \<longrightarrow> member_lines m ! 4 = ''limit_type = null'')
   \<and> (\<not> truthy (member_bitFieldWidth m) \<longrightarrow> member_lines m ! 11 = ''bits = null'')
   \<and> (\<not> truthy (member_selector m) \<longrightarrow> member_lines m ! 12 = ''selector = null'')
   \<and> (\<not> truthy (enum_protect en) \<longrightarrow> enum_to_toml en ! 3 = ''protect = null'')
   \<and> (\<not> truthy (flag_protect fl) \<longrightarrow> flag_lines fl ! 3 = ''protect = null'')
   \<and> (\<not> truthy (bitmask_protect bm) \<longrightarrow> bitmask_to_toml bm ! 3 = ''protect = null'')
   \<and> (\<not> truthy (flags_bitmaskName fs) \<longrightarrow> flags_to_toml fs ! 3 = ''bitmask_name = null'')
   \<and> (\<not> truthy (flags_protect fs) \<longrightarrow> flags_to_toml fs ! 4 = ''protect = null'')
   \<and> (\<not> truthy (enable_version se) \<longrightarrow> enable_lines se ! 1 = ''version = null'')
   \<and> (\<not> truthy (enable_extension se) \<longrightarrow> enable_lines se ! 2 = ''extension = null'')
   \<and> (\<not> truthy (enable_struct se) \<longrightarrow> enable_lines se ! 3 = ''struct = null'')
   \<and> (\<not> truthy (enable_feature se) \<longrightarrow> enable_lines se ! 4 = ''feature = null'')
   \<and> (\<not> truthy (enable_requires se) \<longrightarrow> enable_lines se ! 5 = ''requires = null'')
   \<and> (\<not> truthy (enable_property se) \<longrightarrow> enable_lines se ! 6 = ''property = null'')
   \<and> (\<not> truthy (enable_member se) \<longrightarrow> enable_lines se ! 7 = ''member = null'')
   \<and> (\<not> truthy (enable_value se) \<longrightarrow> enable_lines se ! 8 = ''value = null'')"
  by (simp add: guarded_lines or_null_falsy del: One_nat_def)

theorem C9_falsy_renders_null_witness:
  "\<not> truthy (ext_depends ex_extension_falsy) \<and> extension_to_toml ex_extension_falsy ! 6 = ''depends = null''
   \<and> \<not> truthy (ext_vendorTag ex_extension_falsy) \<and> extension_to_toml ex_extension_falsy ! 7 = ''vendor_tag = null''
   \<and> \<not> truthy (ext_platform ex_extension_falsy) \<and> extension_to_toml ex_extension_falsy ! 8 = ''platform = null''
   \<and> \<not> truthy (ext_protect ex_extension_falsy) \<and> extension_to_toml ex_extension_falsy ! 9 = ''protect = null''
   \<and> \<not> truthy (ext_promotedTo ex_extension_falsy) \<and> extension_to_toml ex_extension_falsy ! 11 = ''promoted_to = null''
   \<and> \<not> truthy (ext_deprecatedBy ex_extension_falsy) \<and> extension_to_toml ex_extension_falsy ! 12 = ''deprecated_by = null''
   \<and> \<not> truthy (ext_obsoletedBy ex_extension_falsy) \<and> extension_to_toml ex_extension_falsy ! 13 = ''obsoleted_by = null''
   \<and> \<not> truthy (fr_depends ex_fr_falsy) \<and> feature_requirement_lines ex_fr_falsy ! 3 = ''depends = null''
   \<and> \<not> truthy (handle_protect ex_handle_falsy) \<and> handle_to_toml ex_handle_falsy ! 4 = ''protect = null''
   \<and> \<not> truthy (cmd_alias ex_command_falsy) \<and> fst (command_to_toml None ex_command_falsy) ! 2 = ''alias = null''
   \<and> \<not> truthy (cmd_protect ex_command_falsy) \<and> fst (command_to_toml None ex_command_falsy) ! 3 = ''protect = null''
   \<and> \<not> truthy (param_length ex_param_falsy) \<and> parameter_lines ex_param_falsy ! 9 = ''length = null''
   \<and> \<not> truthy (param_externSyncPointer ex_param_falsy) \<and> parameter_lines ex_param_falsy ! 13 = ''extern_sync_pointer = null''
   \<and> \<not> truthy (struct_protect ex_struct_falsy) \<and> struct_to_toml ex_struct_falsy ! 5 = ''protect = null''
   \<and> \<not> truthy (struct_sType ex_struct_falsy) \<and> struct_to_toml ex_struct_falsy ! 7 = ''sType = null''
   \<and> \<not> truthy (member_limitType ex_member_falsy) \<and> member_lines ex_member_falsy ! 4 = ''limit_type = null''
   \<and> \<not> truthy (member_bitFieldWidth ex_member_falsy) \<and> member_lines ex_member_falsy ! 11 = ''bits = null''
   \<and> \<not> truthy (member_selector ex_member_falsy) \<and> member_lines ex_member_falsy ! 12 = ''selector = null''
   \<and> \<not> truthy (enum_protect ex_enum_falsy) \<and> enum_to_toml ex_enum_falsy ! 3 = ''protect = null''
   \<and> \<not> truthy (flag_protect ex_flag_falsy) \<and> flag_lines ex_flag_falsy ! 3 = ''protect = null''
   \<and> \<not> truthy (bitmask_protect ex_bitmask_falsy) \<and> bitmask_to_toml ex_bitmask_falsy ! 3 = ''protect = null''
   \<and> \<not> truthy (flags_bitmaskName ex_flags_falsy) \<and> flags_to_toml ex_flags_falsy ! 3 = ''bitmask_name = null''
   \<and> \<not> truthy (flags_protect ex_flags_falsy) \<and> flags_to_toml ex_flags_falsy ! 4 = ''protect = null''
   \<and> \<not> truthy (enable_version ex_enable_falsy) \<and> enable_lines ex_enable_falsy ! 1 = ''version = null''
   \<and> \<not> truthy (enable_extension ex_enable_falsy) \<and> enable_lines ex_enable_falsy ! 2 = ''extension = null''
   \<and> \<not> truthy (enable_struct ex_enable_falsy) \<and> enable_lines ex_enable_falsy ! 3 = ''struct = null''
   \<and> \<not> truthy (enable_feature ex_enable_falsy) \<and> enable_lines ex_enable_falsy ! 4 = ''feature = null''
   \<and> \<not> truthy (enable_requires ex_enable_falsy) \<and> enable_lines ex_enable_falsy ! 5 = ''requires = null''
   \<and> \<not> truthy (enable_property ex_enable_falsy) \<and> enable_lines ex_enable_falsy ! 6 = ''property = null''
   \<and> \<not> truthy (enable_member ex_enable_falsy) \<and> enable_lines ex_enable_falsy ! 7 = ''member = null''
   \<and> \<not> truthy (enable_value ex_enable_falsy) \<and> enable_lines ex_enable_falsy ! 8 = ''value = null''
   \<and> member_bitFieldWidth ex_member_falsy = PInt 0
   \<and> enable_value ex_enable_falsy = PInt 0
   \<and> ext_depends ex_extension_falsy = PStr []
   \<and> ext_promotedTo ex_extension_falsy = PBool False"
  using C9_falsy_renders_null [where e = ex_extension_falsy and fr = ex_fr_falsy and h = ex_handle_falsy and c = ex_command_falsy and p = ex_param_falsy and s = ex_struct_falsy and m = ex_member_falsy and en = ex_enum_falsy and fl = ex_flag_falsy and bm = ex_bitmask_falsy and fs = ex_flags_falsy and se = ex_enable_falsy and g = "None"]
  by (simp add: ex_extension_falsy_def ex_fr_falsy_def ex_handle_falsy_def ex_command_falsy_def ex_param_falsy_def ex_struct_falsy_def ex_member_falsy_def ex_enum_falsy_def ex_flag_falsy_def ex_bitmask_falsy_def ex_flags_falsy_def ex_enable_falsy_def ex_extension_def ex_fr_def ex_handle_A_def ex_command_def ex_param_def ex_struct_def ex_member_def ex_enum_def ex_flag_def ex_bitmask_def ex_flags_def ex_enable_def)

subsection \<open>The order of the output\<close>

text \<open>The lines of a run that completes: the records of each loop in turn, then the three
  lines of the vendor tags.\<close>

lemma main_output_complete:
  assumes "snd (main vk) = None"
  shows "fst (main vk) =
       concat (map extension_to_toml (extensions vk))
     @ concat (map version_to_toml (versions vk))
     @ concat (map handle_to_toml (handles vk))
     @ concat (map (\<lambda>c. fst (command_to_toml (handle_after_loop (handles vk)) c)) (commands vk))
     @ concat (map struct_to_toml (structs vk))
     @ concat (map enum_to_toml (enums vk))
     @ concat (map bitmask_to_toml (bitmasks vk))
     @ concat (map flags_to_toml (flags vk))
     @ concat (map constant_to_toml (constants vk))
     @ concat (map spirv_to_toml (spirv vk))
     @ concat (map platform_lines (platforms vk))
     @ vendor_tags_lines vk"
proof (cases "for_each (command_to_toml (handle_after_loop (handles vk))) (commands vk)")
  case (Pair out r)
  with assms have r: "r = None"
    by (cases r) (simp_all add: main_def)
  with Pair have "out =
      concat (map (\<lambda>c. fst (command_to_toml (handle_after_loop (handles vk)) c)) (commands vk))"
    using for_each_complete [of "command_to_toml (handle_after_loop (handles vk))" "commands vk"]
    by simp
  with Pair r show ?thesis
    by (simp add: main_def)
qed

text \<open>A run that completes ends with the vendor-tags record and one blank line.\<close>

lemma main_ends_with_vendor_tags:
  assumes "snd (main vk) = None"
  shows "\<exists>before. fst (main vk) =
           before @ [''[vendor_tags]'', ''tags = '' @ bracket_join (vendorTags vk), '''']"
  unfolding main_output_complete [OF assms] vendor_tags_lines_def
  by (auto simp flip: append_assoc)

lemma main_empty_model: "main ex_vk_empty = ([''[vendor_tags]'', ''tags = []'', ''''], None)"
  by (simp add: main_def ex_vk_empty_def vendor_tags_lines_def bracket_join_def)

text \<open>A SPIR-V item opens with the header its discriminator selects.\<close>

lemma spirv_header:
  "hd (spirv_to_toml s) =
     (if truthy (spirv_extension s) then ''[[spirv_extension]]'' else ''[[spirv_capability]]'')"
  by (simp add: spirv_to_toml_def)

text \<open>
  C8. The claim: for every model the categories appear in the fixed order, the single
  vendor-tags record last. On a model with every category filled but the handles, the global
  \<^verbatim>\<open>handle\<close> is unbound when the first command is printed: the run stops with
  \<^verbatim>\<open>NameError\<close> after the extension record, the version record and five lines of the
  command. The headers written are those of the extension, the version, their feature
  requirements and the command; the records of the struct, the enum, the bitmask, the flags
  type alias, the constant, the SPIR-V item and the platform, and the vendor-tags record,
  are not written.
\<close>

theorem C8_no_handle_run_stops_in_commands:
  "main ex_vk_filled_no_handle =
     (extension_to_toml ex_extension @ version_to_toml ex_version
      @ [''[[item]]'', ''name = vkDestroyInstance'', ''alias = null'', ''protect = null'',
         ''version = null''],
      Some NameError)
   \<and> filter is_array_header (fst (main ex_vk_filled_no_handle)) =
       [''[[extension]]'', ''[[feature_requirement]]'', ''[[item]]'', ''[[feature_requirement]]'',
        ''[[item]]'']
   \<and> filter is_singleton_header (fst (main ex_vk_filled_no_handle)) = []
   \<and> structs ex_vk_filled_no_handle = [ex_struct]
   \<and> platforms ex_vk_filled_no_handle = [(PStr ''xlib'', PStr ''VK_USE_PLATFORM_XLIB_KHR'')]
   \<and> vendorTags ex_vk_filled_no_handle = [''KHR'', ''EXT'']"
  by (simp add: main_def ex_vk_filled_no_handle_def ex_vk_def handle_after_loop_def
      command_to_toml_def ex_command_def or_null_def
      extension_to_toml_def version_to_toml_def feature_requirement_lines_def
      ex_extension_def ex_version_def ex_fr_def
      is_array_header_def is_singleton_header_def)

text \<open>
  C10. The claim: the output of every model ends with the vendor-tags record and one blank
  line. On a model with a command and no handle the global \<^verbatim>\<open>handle\<close> is unbound
  when \<^verbatim>\<open>command_to_toml\<close> reads it: the run stops with \<^verbatim>\<open>NameError\<close> after
  five lines of the command, and no vendor-tags record is written.
\<close>

theorem C10_no_handle_run_stops_before_vendor_tags:
  "main ex_vk_no_handle =
     ([''[[item]]'', ''name = vkDestroyInstance'', ''alias = null'', ''protect = null'',
       ''version = null''], Some NameError)"
  by (simp add: main_def ex_vk_no_handle_def ex_vk_empty_def handle_after_loop_def
      command_to_toml_def ex_command_def or_null_def)

text \<open>
  C1. The claim: the \<open>instance\<close>, \<open>devices\<close> and \<open>extensions\<close> lines of a command
  come from the handle that owns it, the handle type of its first parameter. On a model with
  the handles \<open>VkInstance\<close> and \<open>VkQueue\<close>, in this order, and the command
  \<open>vkDestroyInstance\<close>, whose first parameter is a \<open>VkInstance\<close>, the three lines of
  the command are those of \<open>VkQueue\<close>, the last handle the handles loop visited.
\<close>

theorem C1_command_fields_from_last_handle:
  "spec_owning_handle ex_vk_two_handles ex_command = Some ex_handle_A
   \<and> handle_to_toml ex_handle_A ! 6 = ''instance = true''
   \<and> handle_to_toml ex_handle_A ! 7 = ''devices = false''
   \<and> handle_to_toml ex_handle_A ! 8 = ''extensions = [E_A]''
   \<and> snd (main ex_vk_two_handles) = None
   \<and> fst (main ex_vk_two_handles) =
         handle_to_toml ex_handle_A @ handle_to_toml ex_handle_B
         @ fst (command_to_toml (Some ex_handle_B) ex_command)
         @ vendor_tags_lines ex_vk_two_handles
   \<and> fst (main ex_vk_two_handles) ! 25 = ''instance = false''
   \<and> fst (main ex_vk_two_handles) ! 26 = ''devices = true''
   \<and> fst (main ex_vk_two_handles) ! 30 = ''extensions = [E_B]''"
  by (simp add: spec_owning_handle_def main_def ex_vk_two_handles_def ex_vk_empty_def
      handle_after_loop_def command_to_toml_def handle_to_toml_def vendor_tags_lines_def
      ex_command_def ex_param_def ex_handle_A_def ex_handle_B_def
      true_false_def bracket_join_def or_null_def)

subsection \<open>Headers\<close>

lemma nested_no_singleton_header:
  "filter is_singleton_header (feature_requirement_lines fr) = []"
  "filter is_singleton_header (ext_flags_lines nf) = []"
  "filter is_singleton_header (ext_enum_fields_lines nf) = []"
  "filter is_singleton_header (ext_flag_bits_lines nf) = []"
  "filter is_singleton_header (parameter_lines p) = []"
  "filter is_singleton_header (member_lines m) = []"
  "filter is_singleton_header (field_lines f) = []"
  "filter is_singleton_header (flag_lines fl) = []"
  "filter is_singleton_header (enable_lines se) = []"
  by (simp_all add: feature_requirement_lines_def ext_flags_lines_def ext_enum_fields_lines_def
      ext_flag_bits_lines_def parameter_lines_def member_lines_def field_lines_def flag_lines_def
      enable_lines_def is_singleton_header_def)

lemma nested_blocks_no_singleton_header:
  "filter is_singleton_header (concat (map feature_requirement_lines frs)) = []"
  "filter is_singleton_header (concat (map ext_flags_lines nfs)) = []"
  "filter is_singleton_header (concat (map ext_enum_fields_lines nfs)) = []"
  "filter is_singleton_header (concat (map ext_flag_bits_lines nfs)) = []"
  "filter is_singleton_header (concat (map parameter_lines ps)) = []"
  "filter is_singleton_header (concat (map member_lines ms)) = []"
  "filter is_singleton_header (concat (map field_lines fs)) = []"
  "filter is_singleton_header (concat (map flag_lines fls)) = []"
  "filter is_singleton_header (concat (map enable_lines ses)) = []"
  by (rule filter_concat_map_Nil, rule nested_no_singleton_header)+

lemma key_value_not_singleton_header:
  "\<not> is_singleton_header []"
  "c \<noteq> CHR ''['' \<Longrightarrow> \<not> is_singleton_header (c # l)"
  "\<not> is_singleton_header (CHR ''['' # CHR ''['' # l)"
  by (simp_all add: is_singleton_header_def)

lemma record_no_singleton_header:
  "filter is_singleton_header (extension_to_toml e) = []"
  "filter is_singleton_header (version_to_toml v) = []"
  "filter is_singleton_header (handle_to_toml h) = []"
  "filter is_singleton_header (fst (command_to_toml g c)) = []"
  "filter is_singleton_header (struct_to_toml s) = []"
  "filter is_singleton_header (enum_to_toml en) = []"
  "filter is_singleton_header (bitmask_to_toml bm) = []"
  "filter is_singleton_header (flags_to_toml fs) = []"
  "filter is_singleton_header (constant_to_toml k) = []"
  "filter is_singleton_header (spirv_to_toml sp) = []"
  "filter is_singleton_header (platform_lines ne) = []"
  by (simp_all add: extension_to_toml_def version_to_toml_def handle_to_toml_def
      command_to_toml_def struct_to_toml_def enum_to_toml_def bitmask_to_toml_def
      flags_to_toml_def constant_to_toml_def spirv_to_toml_def platform_lines_def Let_def
      nested_blocks_no_singleton_header key_value_not_singleton_header
      split: option.splits)

text \<open>In a run that completes, one line is a singleton header: that of the vendor tags.\<close>

lemma completed_run_one_singleton_header:
  assumes "snd (main vk) = None"
  shows "filter is_singleton_header (fst (main vk)) = [''[vendor_tags]'']"
proof -
  have blocks:
    "filter is_singleton_header (concat (map extension_to_toml (extensions vk))) = []"
    "filter is_singleton_header (concat (map version_to_toml (versions vk))) = []"
    "filter is_singleton_header (concat (map handle_to_toml (handles vk))) = []"
    "filter is_singleton_header
       (concat (map (\<lambda>c. fst (command_to_toml (handle_after_loop (handles vk)) c)) (commands vk))) = []"
    "filter is_singleton_header (concat (map struct_to_toml (structs vk))) = []"
    "filter is_singleton_header (concat (map enum_to_toml (enums vk))) = []"
    "filter is_singleton_header (concat (map bitmask_to_toml (bitmasks vk))) = []"
    "filter is_singleton_header (concat (map flags_to_toml (flags vk))) = []"
    "filter is_singleton_header (concat (map constant_to_toml (constants vk))) = []"
    "filter is_singleton_header (concat (map spirv_to_toml (spirv vk))) = []"
    "filter is_singleton_header (concat (map platform_lines (platforms vk))) = []"
    by (rule filter_concat_map_Nil, rule record_no_singleton_header)+
  have tags: "filter is_singleton_header (vendor_tags_lines vk) = [''[vendor_tags]'']"
    by (simp add: vendor_tags_lines_def is_singleton_header_def suffix_to_prefix)
  show ?thesis
    unfolding main_output_complete [OF assms] filter_append blocks tags by simp
qed

text \<open>The record functions that print a header of their own category.\<close>

lemma category_headers:
  "hd (extension_to_toml e) = ''[[extension]]''"
  "hd (enum_to_toml en) = ''[[enum]]''"
  "hd (bitmask_to_toml bm) = ''[[bitmask]]''"
  "hd (flags_to_toml fs) = ''[[flags]]''"
  "hd (constant_to_toml k) = ''[[constant]]''"
  "hd (spirv_to_toml sp) = ''[[spirv_extension]]'' \<or> hd (spirv_to_toml sp) = ''[[spirv_capability]]''"
  "hd (platform_lines ne) = ''[[platform]]''"
  by (simp_all add: extension_to_toml_def enum_to_toml_def bitmask_to_toml_def
      flags_to_toml_def constant_to_toml_def spirv_to_toml_def platform_lines_def)

text \<open>
  C6. The claim: the header of a top-level record identifies its category, so that versions,
  handles, commands and structs carry distinct headers. Every version record, handle record,
  command record and struct record the script prints opens with the same line,
  \<open>[[item]]\<close>, which names none of the four categories.
\<close>

theorem C6_item_header_shared_by_four_categories:
  "hd (version_to_toml v) = ''[[item]]''
   \<and> hd (handle_to_toml h) = ''[[item]]''
   \<and> hd (fst (command_to_toml g c)) = ''[[item]]''
   \<and> hd (struct_to_toml s) = ''[[item]]''
   \<and> hd (version_to_toml ex_version) = hd (struct_to_toml ex_struct)"
  by (simp add: version_to_toml_def handle_to_toml_def command_to_toml_def struct_to_toml_def
      Let_def split: option.splits)

end
